theory Spec2Isabelle
  imports Main "HOL-Library.Sublist" "HOL-Library.Multiset"
begin

section \<open>Python values used by check\_wintask.py\<close>

text \<open>
  Text is a Python \<open>str\<close>, modelled as \<open>string\<close>: one \<open>char\<close> per code point, for
  the code points below 256. The whitespace and line-boundary classes below are the
  ones of \<open>str.strip\<close> and \<open>str.splitlines\<close> on that range; \<open>int\<close> has its own.
  Exceptions are values of \<open>error\<close>; a function that can raise returns
  \<open>error + 'a\<close> with \<open>Inl\<close> for the exception.
\<close>

datatype error = KeyError string | ValueError string | IndexError

type_synonym task_dict = "string \<rightharpoonup> string"

definition apostrophe :: string where
  "apostrophe = [CHR 0x27]"

definition py_isspace :: "char \<Rightarrow> bool" where
  "py_isspace c = ((of_char c :: nat) \<in> {9, 10, 11, 12, 13, 28, 29, 30, 31, 32, 133, 160})"

definition is_linebreak :: "char \<Rightarrow> bool" where
  "is_linebreak c = ((of_char c :: nat) \<in> {10, 11, 12, 13, 28, 29, 30, 133})"

definition strip :: "string \<Rightarrow> string" where
  "strip s = rev (dropWhile py_isspace (rev (dropWhile py_isspace s)))"

text \<open>\<open>str.splitlines()\<close>: \<open>cur\<close> is the line read so far; CR LF is one boundary;
  no empty last line is produced after a final boundary.\<close>

fun splitlines_from :: "string \<Rightarrow> string \<Rightarrow> string list" where
  "splitlines_from cur [] = (if cur = [] then [] else [cur])"
| "splitlines_from cur [c] =
     (if is_linebreak c then [cur] else [cur @ [c]])"
| "splitlines_from cur (c # d # ds) =
     (if c = CHR 0x0D \<and> d = CHR 0x0A then cur # splitlines_from [] ds
      else if is_linebreak c then cur # splitlines_from [] (d # ds)
      else splitlines_from (cur @ [c]) (d # ds))"

definition splitlines :: "string \<Rightarrow> string list" where
  "splitlines s = splitlines_from [] s"

text \<open>\<open>sub in s\<close> on strings; \<open>re.search\<close> with a pattern free of metacharacters
  (\<open>CRITICAL\<close>, \<open>WARNING\<close>, \<open>OK -\<close>) is the same test.\<close>

fun str_contains :: "string \<Rightarrow> string \<Rightarrow> bool" where
  "str_contains sub [] = (sub = [])"
| "str_contains sub (c # cs) = (prefix sub (c # cs) \<or> str_contains sub cs)"

text \<open>\<open>s.split(":", 1)\<close>: one element when there is no colon, else the text before the
  first colon and the text after it.\<close>

definition split_colon :: "string \<Rightarrow> string list" where
  "split_colon s =
     (case dropWhile (\<lambda>c. c \<noteq> CHR '':'') s of
        [] \<Rightarrow> [s]
      | _ # rest \<Rightarrow> [takeWhile (\<lambda>c. c \<noteq> CHR '':'') s, rest])"

text \<open>List indexing \<open>xs[i]\<close> for \<open>i \<ge> 0\<close>, raising \<open>IndexError\<close> out of range.\<close>

definition index :: "'a list \<Rightarrow> nat \<Rightarrow> error + 'a" where
  "index xs i = (if i < length xs then Inr (xs ! i) else Inl IndexError)"

text \<open>Dictionary subscription \<open>d[k]\<close>, raising \<open>KeyError\<close>.\<close>

definition getitem :: "task_dict \<Rightarrow> string \<Rightarrow> error + string" where
  "getitem d k = (case d k of None \<Rightarrow> Inl (KeyError k) | Some v \<Rightarrow> Inr v)"

text \<open>
  \<open>int(s)\<close> on a string. Whitespace around the number is skipped: the C whitespace
  (tab, line feed, vertical tab, form feed, carriage return, space) and the whitespace
  above the ASCII range (0x85, 0xA0), not the separators 0x1C to 0x1F that
  \<open>str.strip\<close> removes. Then come an optional sign and decimal digits, where single
  underscores may separate digits. A text with more digits than
  \<open>sys.get_int_max_str_digits()\<close>, 4300 unless changed, is refused. Every refusal
  raises \<open>ValueError\<close>.
\<close>

definition int_isspace :: "char \<Rightarrow> bool" where
  "int_isspace c = ((of_char c :: nat) \<in> {9, 10, 11, 12, 13, 32, 133, 160})"

definition int_max_str_digits :: nat where
  "int_max_str_digits = 4300"

definition digit_val :: "char \<Rightarrow> int option" where
  "digit_val c =
     (let n = (of_char c :: nat) in if 48 \<le> n \<and> n \<le> 57 then Some (int n - 48) else None)"

fun digits_from :: "int \<Rightarrow> string \<Rightarrow> int option" where
  "digits_from acc [] = Some acc"
| "digits_from acc [c] =
     (case digit_val c of None \<Rightarrow> None | Some v \<Rightarrow> Some (10 * acc + v))"
| "digits_from acc (c # d # ds) =
     (if c = CHR ''_''
      then (case digit_val d of None \<Rightarrow> None | Some v \<Rightarrow> digits_from (10 * acc + v) ds)
      else (case digit_val c of None \<Rightarrow> None | Some v \<Rightarrow> digits_from (10 * acc + v) (d # ds)))"

definition parse_digits :: "string \<Rightarrow> int option" where
  "parse_digits s =
     (case s of
        [] \<Rightarrow> None
      | c # cs \<Rightarrow>
          (case digit_val c of
             None \<Rightarrow> None
           | Some v \<Rightarrow>
               (case digits_from v cs of
                  None \<Rightarrow> None
                | Some n \<Rightarrow>
                    if length (filter (\<lambda>c. c \<noteq> CHR ''_'') s) > int_max_str_digits then None
                    else Some n)))"

definition int_of_str :: "string \<Rightarrow> int option" where
  "int_of_str s =
     (case rev (dropWhile int_isspace (rev (dropWhile int_isspace s))) of
        [] \<Rightarrow> None
      | c # cs \<Rightarrow>
          if c = CHR ''-'' then map_option uminus (parse_digits cs)
          else if c = CHR ''+'' then parse_digits cs
          else parse_digits (c # cs))"

definition py_int :: "string \<Rightarrow> error + int" where
  "py_int s = (case int_of_str s of None \<Rightarrow> Inl (ValueError s) | Some n \<Rightarrow> Inr n)"

text \<open>\<open>hex(n)\<close>: lowercase digits, no padding, the sign before the \<open>0x\<close>.\<close>

definition hex_char :: "nat \<Rightarrow> char" where
  "hex_char n = ''0123456789abcdef'' ! n"

fun hex_digits :: "nat \<Rightarrow> string" where
  "hex_digits n =
     (if n < 16 then [hex_char n] else hex_digits (n div 16) @ [hex_char (n mod 16)])"

declare hex_digits.simps [simp del]

definition py_hex :: "int \<Rightarrow> string" where
  "py_hex n = (if n < 0 then ''-0x'' @ hex_digits (nat (- n)) else ''0x'' @ hex_digits (nat n))"

section \<open>The plugin\<close>

datatype CheckState = OK | WARNING | CRITICAL | UNKNOWN

fun CheckState_value :: "CheckState \<Rightarrow> nat" where
  "CheckState_value OK = 0"
| "CheckState_value WARNING = 1"
| "CheckState_value CRITICAL = 2"
| "CheckState_value UNKNOWN = 3"

text \<open>The command-line options that the evaluation reads (\<open>self.options\<close>).\<close>

record options =
  include_taskname :: "string list"
  ignore_taskname :: "string list"
  ignore_resultcode :: "string list"
  ignore_nextruntime :: bool

definition result_code_hex_converter :: "int \<Rightarrow> string" where
  "result_code_hex_converter decimal_code = py_hex decimal_code"

definition check_task_result_string :: "string \<Rightarrow> string" where
  "check_task_result_string task_hex_code =
     (if task_hex_code = ''0x0'' then ''The task did run properly.''
      else if task_hex_code = ''0x1'' then ''The task did not run properly.''
      else if task_hex_code = ''0x2'' then ''File not found.''
      else if task_hex_code = ''0xa'' then ''The environment is incorrect.''
      else if task_hex_code = ''0x103'' then ''No more data is available.''
      else if task_hex_code = ''0x41301'' then ''The task is currently running.''
      else if task_hex_code = ''0x41302''
        then ''The task will not run at the scheduled times because it has been disabled.''
      else if task_hex_code = ''0x41303'' then ''The task has not yet run.''
      else if task_hex_code = ''0x41305''
        then ''One or more of the properties that are needed to run this task on a schedule have not been set.''
      else if task_hex_code = ''0x41306''
        then ''The last run of the task was terminated by the user.''
      else if task_hex_code = ''0x41307''
        then ''Either the task has no triggers or the existing triggers are disabled or not set.''
      else if task_hex_code = ''0x420'' then ''An instance of the service is already running.''
      else if task_hex_code = ''0x800710e0''
        then ''The operator or administrator has refused the request.''
      else if task_hex_code = ''0x800700b7''
        then ''Cannot create a file when that file already exists.''
      else if task_hex_code = ''0x8007042b'' then ''The process terminated unexpectedly.''
      else if task_hex_code = ''0x40010004'' then ''Debugger terminated the process.''
      else if task_hex_code = ''0x80004003'' then ''Invalid pointer.''
      else if task_hex_code = ''0x80004005'' then ''Unspecified error.''
      else if task_hex_code = ''0x80090030''
        then ''The device that is required by this cryptographic provider is not ready for use.''
      else if task_hex_code = ''0x10000000''
        then ''Task has a special error, see: https://devblogs.microsoft.com/oldnewthing/20121227-00/?p=5713''
      else if task_hex_code = ''0x8000000a''
        then ''The data necessary to complete this operation is not yet available.''
      else if task_hex_code = ''0x800710e0''
        then ''The operator or administrator has refused the request.''
      else ''UNKNOWN error code!'')"

subsection \<open>get\_windows\_task: from the remote command's output to task dictionaries\<close>

definition include_taskname_list :: "options \<Rightarrow> string list" where
  "include_taskname_list opts = map strip (include_taskname opts)"

text \<open>
  One line of a block:
  \<^verbatim>\<open>
  task_preference_list = single_task_detail.split(":", 1)
  try:
      task_dict[task_preference_list[0].strip()] = task_preference_list[1].strip()
  except:
      task_dict[task_preference_list[0].strip()] = task_preference_list[1]
  \<close>
  The right-hand side is evaluated first, in the \<open>try\<close> and again in the handler.
\<close>

definition add_task_detail :: "task_dict \<Rightarrow> string \<Rightarrow> error + task_dict" where
  "add_task_detail task_dict single_task_detail =
     (let task_preference_list = split_colon single_task_detail in
      case index task_preference_list 1 of
        Inr v \<Rightarrow> Inr (task_dict(strip (hd task_preference_list) \<mapsto> strip v))
      | Inl _ \<Rightarrow>
          (case index task_preference_list 1 of
             Inr v \<Rightarrow> Inr (task_dict(strip (hd task_preference_list) \<mapsto> v))
           | Inl e \<Rightarrow> Inl e))"

fun build_task_dict :: "task_dict \<Rightarrow> string list \<Rightarrow> error + task_dict" where
  "build_task_dict task_dict [] = Inr task_dict"
| "build_task_dict task_dict (l # ls) =
     (case add_task_detail task_dict l of
        Inl e \<Rightarrow> Inl e
      | Inr task_dict' \<Rightarrow> build_task_dict task_dict' ls)"

fun build_task_dicts :: "string list list \<Rightarrow> error + task_dict list" where
  "build_task_dicts [] = Inr []"
| "build_task_dicts (b # bs) =
     (case build_task_dict Map.empty b of
        Inl e \<Rightarrow> Inl e
      | Inr d \<Rightarrow> (case build_task_dicts bs of Inl e \<Rightarrow> Inl e | Inr ds \<Rightarrow> Inr (d # ds)))"

text \<open>\<open>perfdata\<close> is the text that \<open>run_ssh_command\<close> returned.\<close>

definition get_windows_task :: "string \<Rightarrow> error + task_dict list" where
  "get_windows_task perfdata =
     (let perfdata_list = filter (\<lambda>l. l \<noteq> []) (splitlines perfdata);
          element_index_list =
            filter (\<lambda>i. str_contains ''LastRunTime'' (perfdata_list ! i)) [0 ..< length perfdata_list];
          full_task_list = map (\<lambda>index_number. take 7 (drop index_number perfdata_list)) element_index_list
      in build_task_dicts full_task_list)"

subsection \<open>check\_task\_details: the entries of \<open>self.result_list\<close>\<close>

text \<open>\<open>result_list\<close> is the list the method appends to; the updated list is returned.\<close>

definition output_message :: "string \<Rightarrow> string \<Rightarrow> string \<Rightarrow> string \<Rightarrow> string" where
  "output_message task_name task_result_string task_location task_hex_code =
     apostrophe @ task_name @ apostrophe @ '': '' @ task_result_string @ '' Task location: ''
       @ task_location @ ''. Result code: '' @ task_hex_code"

definition not_scheduled_message :: "string \<Rightarrow> string \<Rightarrow> string" where
  "not_scheduled_message task_name task_location =
     ''WARNING - '' @ apostrophe @ task_name @ apostrophe
       @ '' is not scheduled or no trigger. Task location: '' @ task_location @ ''.''"

definition missing_message :: "string \<Rightarrow> string" where
  "missing_message missing_taskname =
     ''WARNING - '' @ apostrophe @ missing_taskname @ apostrophe
       @ '' task can not be found. Please check task name!''"

definition internal_task_check ::
  "options \<Rightarrow> task_dict \<Rightarrow> string \<Rightarrow> bool \<Rightarrow> string list \<Rightarrow> error + string list" where
  "internal_task_check opts task_detail_dict task_name task_include result_list =
     (case getitem task_detail_dict ''TaskPath'' of Inl e \<Rightarrow> Inl e | Inr task_location \<Rightarrow>
      case getitem task_detail_dict ''NextRunTime'' of Inl e \<Rightarrow> Inl e | Inr task_nextruntime \<Rightarrow>
      case getitem task_detail_dict ''LastTaskResult'' of Inl e \<Rightarrow> Inl e | Inr raw \<Rightarrow>
      case py_int raw of Inl e \<Rightarrow> Inl e | Inr task_result_code \<Rightarrow>
      let task_trigger =
            (case getitem task_detail_dict ''Enabled'' of Inr v \<Rightarrow> v | Inl _ \<Rightarrow> ''True'');
          task_hex_code = result_code_hex_converter task_result_code
      in
        if task_hex_code \<notin> set (ignore_resultcode opts) then
          let task_result_string = check_task_result_string task_hex_code;
              msg = output_message task_name task_result_string task_location task_hex_code
          in
            if raw \<noteq> ''0'' then Inr (result_list @ [''WARNING - '' @ msg])
            else if ignore_nextruntime opts = False then
              if task_nextruntime = [] \<or> task_trigger = ''False''
              then Inr (result_list @ [not_scheduled_message task_name task_location])
              else if task_include = True then Inr (result_list @ [''OK - '' @ msg])
              else Inr result_list
            else if task_include = True then Inr (result_list @ [''OK - '' @ msg])
            else Inr result_list
        else Inr result_list)"

text \<open>The first loop: \<open>taskname_list.append(task_detail_dict['TaskName'])\<close>.\<close>

fun collect_tasknames :: "task_dict list \<Rightarrow> error + string list" where
  "collect_tasknames [] = Inr []"
| "collect_tasknames (d # ds) =
     (case getitem d ''TaskName'' of
        Inl e \<Rightarrow> Inl e
      | Inr n \<Rightarrow> (case collect_tasknames ds of Inl e \<Rightarrow> Inl e | Inr ns \<Rightarrow> Inr (n # ns)))"

text \<open>The last loop, over the task dictionaries.\<close>

fun check_tasks :: "options \<Rightarrow> task_dict list \<Rightarrow> string list \<Rightarrow> error + string list" where
  "check_tasks opts [] result_list = Inr result_list"
| "check_tasks opts (task_detail_dict # rest) result_list =
     (case getitem task_detail_dict ''TaskName'' of
        Inl e \<Rightarrow> Inl e
      | Inr task_name \<Rightarrow>
          if length (include_taskname_list opts) > 0 then
            if task_name \<in> set (include_taskname_list opts) then
              (case internal_task_check opts task_detail_dict task_name True result_list of
                 Inl e \<Rightarrow> Inl e
               | Inr result_list' \<Rightarrow> check_tasks opts rest result_list')
            else check_tasks opts rest result_list
          else
            if task_name \<notin> set (ignore_taskname opts) then
              (case internal_task_check opts task_detail_dict task_name False result_list of
                 Inl e \<Rightarrow> Inl e
               | Inr result_list' \<Rightarrow> check_tasks opts rest result_list')
            else check_tasks opts rest result_list)"

text \<open>
  \<open>different_list = list(set(self.include_taskname_list) - set(taskname_list))\<close>:
  the order in which a Python set of strings is listed is not fixed by the program (it
  follows the string hashes, which the interpreter seeds per process), so the listing
  is the parameter \<open>list_of_set\<close>. \<open>set_listing\<close> says that a listing is one of a
  given set: every element once.
\<close>

definition set_listing :: "(string set \<Rightarrow> string list) \<Rightarrow> string set \<Rightarrow> bool" where
  "set_listing list_of_set S = (distinct (list_of_set S) \<and> set (list_of_set S) = S)"

definition listing_by :: "string list \<Rightarrow> string set \<Rightarrow> string list" where
  "listing_by order S = filter (\<lambda>x. x \<in> S) (remdups order)"

definition check_task_details ::
  "options \<Rightarrow> (string set \<Rightarrow> string list) \<Rightarrow> task_dict list \<Rightarrow> string list \<Rightarrow> error + string list" where
  "check_task_details opts list_of_set task_dict_list result_list =
     (case collect_tasknames task_dict_list of
        Inl e \<Rightarrow> Inl e
      | Inr taskname_list \<Rightarrow>
          let different_list = list_of_set (set (include_taskname_list opts) - set taskname_list)
          in check_tasks opts task_dict_list (result_list @ map missing_message different_list))"

subsection \<open>check\_exitcodes: printed lines and exit status\<close>

definition check_exitcodes :: "string list \<Rightarrow> string list \<times> nat" where
  "check_exitcodes result_list =
     ((if list_ex (str_contains ''CRITICAL'') result_list
         then filter (str_contains ''CRITICAL'') result_list else [])
      @ (if list_ex (str_contains ''WARNING'') result_list
         then filter (str_contains ''WARNING'') result_list else [])
      @ (if list_ex (str_contains ''OK -'') result_list
         then filter (str_contains ''OK -'') result_list else []),
      if list_ex (str_contains ''CRITICAL'') result_list then 2
      else if list_ex (str_contains ''WARNING'') result_list then 1
      else 0)"

text \<open>\<open>main\<close>, from the fetched text on; \<open>self.result_list\<close> starts empty.\<close>

definition main :: "options \<Rightarrow> (string set \<Rightarrow> string list) \<Rightarrow> string \<Rightarrow> error + string list \<times> nat" where
  "main opts list_of_set perfdata =
     (case get_windows_task perfdata of
        Inl e \<Rightarrow> Inl e
      | Inr task_dict_list \<Rightarrow>
          (case check_task_details opts list_of_set task_dict_list [] of
             Inl e \<Rightarrow> Inl e
           | Inr result_list \<Rightarrow> Inr (check_exitcodes result_list)))"

section \<open>Inputs used in examples\<close>

text \<open>One block of the remote command's output, the dictionary it parses to, and the
  options of a run without command-line arguments for the task selection.\<close>

definition newline :: string where
  "newline = [CHR 0x0A]"

definition example_block :: "string \<Rightarrow> string \<Rightarrow> string \<Rightarrow> string" where
  "example_block task_name last_result next_run =
     ''LastRunTime        : 2022.12.10. 3:00:00'' @ newline
     @ ''LastTaskResult     : '' @ last_result @ newline
     @ ''NextRunTime        : '' @ next_run @ newline
     @ ''NumberOfMissedRuns : 0'' @ newline
     @ ''TaskName           : '' @ task_name @ newline
     @ ''TaskPath           : '' @ [CHR 0x5C] @ newline"

definition example_truncated_block :: "string \<Rightarrow> string \<Rightarrow> string \<Rightarrow> string" where
  "example_truncated_block task_name last_result next_run =
     ''LastRunTime        : 2022.12.10. 3:00:00'' @ newline
     @ ''LastTaskResult     : '' @ last_result @ newline
     @ ''NextRunTime        : '' @ next_run @ newline
     @ ''NumberOfMissedRuns : 0'' @ newline
     @ ''TaskName           : '' @ task_name @ newline"

definition example_task :: "string \<Rightarrow> string \<Rightarrow> string \<Rightarrow> task_dict" where
  "example_task task_name last_result next_run =
     [''LastRunTime'' \<mapsto> ''2022.12.10. 3:00:00'', ''LastTaskResult'' \<mapsto> last_result,
      ''NextRunTime'' \<mapsto> next_run, ''NumberOfMissedRuns'' \<mapsto> ''0'',
      ''TaskName'' \<mapsto> task_name, ''TaskPath'' \<mapsto> [CHR 0x5C]]"

definition example_options :: options where
  "example_options =
     \<lparr>include_taskname = [], ignore_taskname = [], ignore_resultcode = [],
      ignore_nextruntime = False\<rparr>"

text \<open>Letter case, for the codes given to \<open>--ignore-resultcode\<close>.\<close>

definition is_upper :: "char \<Rightarrow> bool" where
  "is_upper c = (c \<in> set ''ABCDEFGHIJKLMNOPQRSTUVWXYZ'')"

definition ascii_lower :: "char \<Rightarrow> char" where
  "ascii_lower c =
     (case map_of (zip ''ABCDEFGHIJKLMNOPQRSTUVWXYZ'' ''abcdefghijklmnopqrstuvwxyz'') c of
        None \<Rightarrow> c
      | Some l \<Rightarrow> l)"

section \<open>Notions used in the statements\<close>

text \<open>
  An entry of \<open>result_list\<close> carries its severity as the label it starts with.
  \<open>by_severity\<close> and \<open>highest_severity\<close> are the grouping and the exit status that go
  by these labels; \<open>markers_are_labels\<close> says that an entry contains the texts that
  \<open>check_exitcodes\<close> searches for only as its own label.
\<close>

fun severity_label :: "CheckState \<Rightarrow> string" where
  "severity_label OK = ''OK - ''"
| "severity_label WARNING = ''WARNING - ''"
| "severity_label CRITICAL = ''CRITICAL - ''"
| "severity_label UNKNOWN = ''UNKNOWN - ''"

definition has_severity :: "CheckState \<Rightarrow> string \<Rightarrow> bool" where
  "has_severity sev entry = prefix (severity_label sev) entry"

definition markers_are_labels :: "string \<Rightarrow> bool" where
  "markers_are_labels entry =
     (str_contains ''CRITICAL'' entry = has_severity CRITICAL entry
      \<and> str_contains ''WARNING'' entry = has_severity WARNING entry
      \<and> str_contains ''OK -'' entry = has_severity OK entry)"

definition highest_severity :: "string list \<Rightarrow> CheckState" where
  "highest_severity result_list =
     (if list_ex (has_severity CRITICAL) result_list then CRITICAL
      else if list_ex (has_severity WARNING) result_list then WARNING
      else OK)"

definition by_severity :: "string list \<Rightarrow> string list" where
  "by_severity result_list =
     filter (has_severity CRITICAL) result_list @ filter (has_severity WARNING) result_list
       @ filter (has_severity OK) result_list"

text \<open>
  \<open>selected\<close> is the test of the last loop on a task name; \<open>evaluable\<close> says that
  a dictionary has what \<open>internal_task_check\<close> reads; \<open>complete_block\<close> combines them
  with the presence of \<open>TaskName\<close>. \<open>task_entries\<close> are the entries that one
  dictionary contributes, \<open>missing_names\<close> the set that \<open>different_list\<close> lists.
\<close>

definition selected :: "options \<Rightarrow> string \<Rightarrow> bool" where
  "selected opts task_name =
     (if length (include_taskname_list opts) > 0 then task_name \<in> set (include_taskname_list opts)
      else task_name \<notin> set (ignore_taskname opts))"

definition evaluable :: "task_dict \<Rightarrow> bool" where
  "evaluable d =
     (d ''TaskPath'' \<noteq> None \<and> d ''NextRunTime'' \<noteq> None
      \<and> (case d ''LastTaskResult'' of None \<Rightarrow> False | Some raw \<Rightarrow> int_of_str raw \<noteq> None))"

definition complete_block :: "options \<Rightarrow> task_dict \<Rightarrow> bool" where
  "complete_block opts d =
     (case d ''TaskName'' of
        None \<Rightarrow> False
      | Some task_name \<Rightarrow> selected opts task_name \<longrightarrow> evaluable d)"

definition task_entries :: "options \<Rightarrow> task_dict \<Rightarrow> string list" where
  "task_entries opts d =
     (case d ''TaskName'' of
        None \<Rightarrow> []
      | Some task_name \<Rightarrow>
          if selected opts task_name
          then (case internal_task_check opts d task_name (length (include_taskname_list opts) > 0) [] of
                  Inl _ \<Rightarrow> []
                | Inr entries \<Rightarrow> entries)
          else [])"

definition missing_names :: "options \<Rightarrow> task_dict list \<Rightarrow> string set" where
  "missing_names opts task_dict_list =
     (case collect_tasknames task_dict_list of
        Inl _ \<Rightarrow> {}
      | Inr taskname_list \<Rightarrow> set (include_taskname_list opts) - set taskname_list)"

definition fetched_missing_names :: "options \<Rightarrow> string \<Rightarrow> string set" where
  "fetched_missing_names opts perfdata =
     (case get_windows_task perfdata of
        Inl _ \<Rightarrow> {}
      | Inr task_dict_list \<Rightarrow> missing_names opts task_dict_list)"

definition same_lines_and_status :: "string list \<times> nat \<Rightarrow> string list \<times> nat \<Rightarrow> bool" where
  "same_lines_and_status r1 r2 = (mset (fst r1) = mset (fst r2) \<and> snd r1 = snd r2)"

section \<open>Evaluation rules\<close>

lemma hex_digits_small: "n < 16 \<Longrightarrow> hex_digits n = [hex_char n]"
  by (subst hex_digits.simps) simp

lemma hex_digits_large:
  "\<not> n < 16 \<Longrightarrow> hex_digits n = hex_digits (n div 16) @ [hex_char (n mod 16)]"
  by (subst hex_digits.simps) simp

lemmas string_defs =
  apostrophe_def py_isspace_def is_linebreak_def strip_def splitlines_def split_colon_def
  index_def getitem_def digit_val_def parse_digits_def int_isspace_def int_max_str_digits_def
  int_of_str_def py_int_def
  hex_char_def hex_digits_small hex_digits_large py_hex_def

lemmas plugin_defs =
  result_code_hex_converter_def check_task_result_string_def include_taskname_list_def
  add_task_detail_def get_windows_task_def output_message_def not_scheduled_message_def
  missing_message_def internal_task_check_def check_task_details_def check_exitcodes_def
  main_def listing_by_def

lemma get_windows_task_example:
  "get_windows_task (example_block ''Backup'' ''0'' ''2024-01-01'')
     = Inr [example_task ''Backup'' ''0'' ''2024-01-01'']"
  by (simp add: string_defs plugin_defs example_block_def example_task_def newline_def)

lemma str_contains_iff: "str_contains sub s \<longleftrightarrow> (\<exists>p q. s = p @ sub @ q)"
proof (induction s)
  case Nil
  then show ?case by auto
next
  case (Cons c cs)
  show ?case
  proof
    assume "str_contains sub (c # cs)"
    then consider "prefix sub (c # cs)" | "str_contains sub cs" by auto
    then show "\<exists>p q. c # cs = p @ sub @ q"
    proof cases
      case 1
      then obtain q where "c # cs = sub @ q" by (auto simp: prefix_def)
      then have "c # cs = [] @ sub @ q" by simp
      then show ?thesis by blast
    next
      case 2
      with Cons.IH obtain p q where "cs = p @ sub @ q" by blast
      then have "c # cs = (c # p) @ sub @ q" by simp
      then show ?thesis by blast
    qed
  next
    assume "\<exists>p q. c # cs = p @ sub @ q"
    then obtain p q where pq: "c # cs = p @ sub @ q" by blast
    show "str_contains sub (c # cs)"
    proof (cases p)
      case Nil
      with pq have "prefix sub (c # cs)" by (simp add: prefix_def)
      then show ?thesis by simp
    next
      case (Cons a p')
      with pq have "cs = p' @ sub @ q" by simp
      with Cons.IH have "str_contains sub cs" by blast
      then show ?thesis by simp
    qed
  qed
qed

lemma str_contains_after: "str_contains sub s \<Longrightarrow> str_contains sub (p @ s)"
proof -
  assume "str_contains sub s"
  then obtain a b where "s = a @ sub @ b" by (auto simp: str_contains_iff)
  then have "p @ s = (p @ a) @ sub @ b" by simp
  then show ?thesis unfolding str_contains_iff by blast
qed

lemma int_of_str_zero: "int_of_str ''0'' = Some 0"
  by (simp add: string_defs)

lemma py_int_separator: "py_int (CHR 0x1F # ''12'') = Inl (ValueError (CHR 0x1F # ''12''))"
  by (simp add: string_defs)

lemma py_int_nbsp: "py_int (CHR 0xA0 # ''12'') = Inr 12"
  by (simp add: string_defs)

lemma parse_digits_limit:
  "length (filter (\<lambda>c. c \<noteq> CHR ''_'') s) > int_max_str_digits \<Longrightarrow> parse_digits s = None"
  by (auto simp: parse_digits_def split: list.split option.split)

lemma py_int_nonzero_raw: "py_int raw = Inr n \<Longrightarrow> n \<noteq> 0 \<Longrightarrow> raw \<noteq> ''0''"
  by (auto simp: py_int_def int_of_str_zero)

lemma py_hex_negative: "n < 0 \<Longrightarrow> py_hex n = ''-0x'' @ hex_digits (nat (- n))"
  by (simp add: py_hex_def)

lemma check_task_result_string_minus:
  "check_task_result_string (CHR ''-'' # s) = ''UNKNOWN error code!''"
  by (simp add: check_task_result_string_def)

lemma output_message_contains:
  "str_contains task_name (output_message task_name d l h)"
  "str_contains d (output_message task_name d l h)"
  "str_contains l (output_message task_name d l h)"
  "str_contains h (output_message task_name d l h)"
  unfolding output_message_def str_contains_iff
  by (metis append.assoc append_Nil2)+

section \<open>Parsing a line\<close>

lemma split_colon_first:
  "CHR '':'' \<notin> set label \<Longrightarrow> split_colon (label @ CHR '':'' # rest) = [label, rest]"
proof -
  assume a: "CHR '':'' \<notin> set label"
  then have d: "dropWhile (\<lambda>c. c \<noteq> CHR '':'') (label @ CHR '':'' # rest) = CHR '':'' # rest"
    by (induction label) auto
  from a have t: "takeWhile (\<lambda>c. c \<noteq> CHR '':'') (label @ CHR '':'' # rest) = label"
    by (induction label) auto
  show ?thesis unfolding split_colon_def d t by simp
qed

lemma add_task_detail_colon:
  "CHR '':'' \<notin> set label \<Longrightarrow>
     add_task_detail task_dict (label @ CHR '':'' # rest) = Inr (task_dict(strip label \<mapsto> strip rest))"
  by (simp add: add_task_detail_def split_colon_first index_def)

lemma add_task_detail_no_colon:
  "CHR '':'' \<notin> set single_task_detail \<Longrightarrow> add_task_detail task_dict single_task_detail = Inl IndexError"
proof -
  assume "CHR '':'' \<notin> set single_task_detail"
  then have h: "dropWhile (\<lambda>c. c \<noteq> CHR '':'') single_task_detail = []"
    by (induction single_task_detail) auto
  show ?thesis
    unfolding add_task_detail_def split_colon_def h by (simp add: index_def)
qed

text \<open>
  C3. A line of a task block is split at its first colon only, and label and value are
  stripped. The claim adds that a line without a colon does not make the parser fail.
  The handler of the \<open>try\<close> reads the missing second element again, so the
  \<open>IndexError\<close> leaves \<open>get_windows_task\<close>: here on a block followed, inside its
  window of seven lines, by a line that has no colon.
\<close>

theorem line_without_colon_raises:
  "get_windows_task (example_block ''Backup'' ''0'' ''2024-01-01'' @ ''continued text'' @ newline)
     = Inl IndexError"
  by (simp add: string_defs plugin_defs example_block_def newline_def)

text \<open>
  C4. For a record that is evaluated and whose hex code is not ignored, a
  \<open>LastTaskResult\<close> that is not the integer 0 appends exactly one entry, the WARNING
  with the task name, the description of the code, the task path and the hex code;
  this holds for both values of \<open>task_include\<close> and whatever the next run time, the
  trigger and \<open>ignore_nextruntime\<close> are.
\<close>

theorem nonzero_result_is_warning:
  assumes "task_detail_dict ''TaskPath'' = Some task_location"
    and "task_detail_dict ''NextRunTime'' = Some task_nextruntime"
    and "task_detail_dict ''LastTaskResult'' = Some raw"
    and "py_int raw = Inr n"
    and "n \<noteq> 0"
    and "result_code_hex_converter n \<notin> set (ignore_resultcode opts)"
  shows "\<exists>entry.
           internal_task_check opts task_detail_dict task_name task_include result_list
             = Inr (result_list @ [entry])
         \<and> entry = ''WARNING - '' @ output_message task_name
                      (check_task_result_string (result_code_hex_converter n)) task_location
                      (result_code_hex_converter n)
         \<and> str_contains task_name entry
         \<and> str_contains (check_task_result_string (result_code_hex_converter n)) entry
         \<and> str_contains task_location entry
         \<and> str_contains (result_code_hex_converter n) entry"
proof -
  let ?entry = "''WARNING - '' @ output_message task_name
                  (check_task_result_string (result_code_hex_converter n)) task_location
                  (result_code_hex_converter n)"
  from assms(4,5) have "raw \<noteq> ''0''" by (rule py_int_nonzero_raw)
  with assms have "internal_task_check opts task_detail_dict task_name task_include result_list
      = Inr (result_list @ [?entry])"
    by (simp add: internal_task_check_def getitem_def Let_def)
  moreover have "str_contains task_name ?entry"
    "str_contains (check_task_result_string (result_code_hex_converter n)) ?entry"
    "str_contains task_location ?entry"
    "str_contains (result_code_hex_converter n) ?entry"
    by (rule str_contains_after, rule output_message_contains)+
  ultimately show ?thesis by blast
qed

theorem nonzero_result_is_warning_witness:
  "internal_task_check example_options (example_task ''Backup'' ''267013'' '''') ''Backup'' False []
     = Inr [''WARNING - '' @ output_message ''Backup''
         ''One or more of the properties that are needed to run this task on a schedule have not been set.''
         [CHR 0x5C] ''0x41305'']"
proof -
  have h: "py_int ''267013'' = Inr 267013" "result_code_hex_converter 267013 = ''0x41305''"
    by (simp_all add: string_defs result_code_hex_converter_def)
  have d: "check_task_result_string ''0x41305''
      = ''One or more of the properties that are needed to run this task on a schedule have not been set.''"
    by (simp add: check_task_result_string_def)
  have "\<exists>entry. internal_task_check example_options (example_task ''Backup'' ''267013'' '''')
           ''Backup'' False [] = Inr ([] @ [entry])
         \<and> entry = ''WARNING - '' @ output_message ''Backup''
                      (check_task_result_string (result_code_hex_converter 267013)) [CHR 0x5C]
                      (result_code_hex_converter 267013)
         \<and> str_contains ''Backup'' entry
         \<and> str_contains (check_task_result_string (result_code_hex_converter 267013)) entry
         \<and> str_contains [CHR 0x5C] entry
         \<and> str_contains (result_code_hex_converter 267013) entry"
    by (rule nonzero_result_is_warning [where task_nextruntime = "''''" and raw = "''267013''"])
      (simp_all add: h example_task_def example_options_def)
  then show ?thesis unfolding h d by auto
qed

text \<open>
  C5. A record whose hex code is in \<open>ignore_resultcode\<close> appends no entry, for both
  values of \<open>task_include\<close> and whatever its result, next run time and trigger are.
\<close>

theorem ignored_code_emits_nothing:
  assumes "task_detail_dict ''TaskPath'' = Some task_location"
    and "task_detail_dict ''NextRunTime'' = Some task_nextruntime"
    and "task_detail_dict ''LastTaskResult'' = Some raw"
    and "py_int raw = Inr n"
    and "result_code_hex_converter n \<in> set (ignore_resultcode opts)"
  shows "internal_task_check opts task_detail_dict task_name task_include result_list
           = Inr result_list"
  using assms by (simp add: internal_task_check_def getitem_def Let_def)

theorem ignored_code_emits_nothing_witness:
  "internal_task_check (example_options\<lparr>ignore_resultcode := [''0x41303'']\<rparr>)
     (example_task ''Backup'' ''267011'' '''') ''Backup'' True [] = Inr []"
proof -
  have h: "py_int ''267011'' = Inr 267011" "result_code_hex_converter 267011 = ''0x41303''"
    by (simp_all add: string_defs result_code_hex_converter_def)
  show ?thesis
    using ignored_code_emits_nothing [of "example_task ''Backup'' ''267011'' ''''" "[CHR 0x5C]" "''''"
        "''267011''" 267011 "example_options\<lparr>ignore_resultcode := [''0x41303'']\<rparr>" "''Backup''" True "[]"]
    by (simp add: h example_task_def example_options_def)
qed

text \<open>
  C10. For a negative \<open>LastTaskResult\<close> that is not ignored, the hex code starts with
  \<open>-0x\<close>, its description is \<open>UNKNOWN error code!\<close>, and the record appends one
  WARNING entry.
\<close>

theorem negative_result_is_unknown_warning:
  assumes "task_detail_dict ''TaskPath'' = Some task_location"
    and "task_detail_dict ''NextRunTime'' = Some task_nextruntime"
    and "task_detail_dict ''LastTaskResult'' = Some raw"
    and "py_int raw = Inr n"
    and "n < 0"
    and "result_code_hex_converter n \<notin> set (ignore_resultcode opts)"
  shows "prefix ''-0x'' (result_code_hex_converter n)
       \<and> check_task_result_string (result_code_hex_converter n) = ''UNKNOWN error code!''
       \<and> internal_task_check opts task_detail_dict task_name task_include result_list
           = Inr (result_list @
               [''WARNING - '' @ output_message task_name ''UNKNOWN error code!'' task_location
                  (result_code_hex_converter n)])"
proof -
  from assms(5) have hx: "result_code_hex_converter n = ''-0x'' @ hex_digits (nat (- n))"
    by (simp add: result_code_hex_converter_def py_hex_negative)
  then have p: "prefix ''-0x'' (result_code_hex_converter n)" by simp
  from hx have u: "check_task_result_string (result_code_hex_converter n) = ''UNKNOWN error code!''"
    by (simp add: check_task_result_string_minus)
  from assms(5) have "n \<noteq> 0" by simp
  with assms(4) have "raw \<noteq> ''0''" by (rule py_int_nonzero_raw)
  with assms u have "internal_task_check opts task_detail_dict task_name task_include result_list
           = Inr (result_list @
               [''WARNING - '' @ output_message task_name ''UNKNOWN error code!'' task_location
                  (result_code_hex_converter n)])"
    by (simp add: internal_task_check_def getitem_def Let_def)
  with p u show ?thesis by blast
qed

theorem negative_result_is_unknown_warning_witness:
  "prefix ''-0x'' (result_code_hex_converter (- 2147024894))
   \<and> check_task_result_string (result_code_hex_converter (- 2147024894)) = ''UNKNOWN error code!''
   \<and> internal_task_check example_options (example_task ''Backup'' ''-2147024894'' ''2024-01-01'')
        ''Backup'' True []
      = Inr [''WARNING - '' @ output_message ''Backup'' ''UNKNOWN error code!'' [CHR 0x5C] ''-0x7ff8fffe'']"
proof -
  have h: "py_int ''-2147024894'' = Inr (- 2147024894)"
     "result_code_hex_converter (- 2147024894) = ''-0x7ff8fffe''"
    by (simp_all add: string_defs result_code_hex_converter_def)
  show ?thesis
    using negative_result_is_unknown_warning [of "example_task ''Backup'' ''-2147024894'' ''2024-01-01''"
        "[CHR 0x5C]" "''2024-01-01''" "''-2147024894''" "- 2147024894" example_options "''Backup''" True "[]"]
    by (simp add: h example_task_def example_options_def)
qed

section \<open>A result of zero\<close>

text \<open>
  C7, as stated: a record whose \<open>LastTaskResult\<close> is the integer 0 and is not ignored
  gets the not-scheduled WARNING or, in include mode, the OK entry. The code compares
  the text of the field with \<open>"0"\<close>: the text \<open>00\<close> is the integer 0, and the record
  gets the WARNING of a failed run instead.
\<close>

theorem leading_zero_result_counterexample:
  "py_int ''00'' = Inr 0
   \<and> result_code_hex_converter 0 \<notin> set (ignore_resultcode example_options)
   \<and> internal_task_check example_options (example_task ''Backup'' ''00'' ''2024-01-01'') ''Backup'' True []
       = Inr [''WARNING - '' @ output_message ''Backup'' ''The task did run properly.'' [CHR 0x5C] ''0x0'']
   \<and> internal_task_check example_options (example_task ''Backup'' ''00'' ''2024-01-01'') ''Backup'' True []
       \<noteq> Inr [''OK - '' @ output_message ''Backup'' ''The task did run properly.'' [CHR 0x5C] ''0x0'']"
  by (simp add: string_defs plugin_defs example_options_def example_task_def)

text \<open>
  C7, amended: for a record whose \<open>LastTaskResult\<close> field is the text \<open>0\<close> and whose
  code \<open>0x0\<close> is not ignored: when \<open>ignore_nextruntime\<close> is off and the next run time
  is empty or the \<open>Enabled\<close> field is \<open>False\<close>, the not-scheduled WARNING is appended;
  otherwise the OK entry is appended exactly when \<open>task_include\<close> holds, and nothing
  in exclude mode. A record without \<open>Enabled\<close> field counts as enabled.
\<close>

theorem zero_result_classification:
  assumes "task_detail_dict ''TaskPath'' = Some task_location"
    and "task_detail_dict ''NextRunTime'' = Some task_nextruntime"
    and "task_detail_dict ''LastTaskResult'' = Some ''0''"
    and "''0x0'' \<notin> set (ignore_resultcode opts)"
  shows "internal_task_check opts task_detail_dict task_name task_include result_list
           = Inr (result_list @
               (if \<not> ignore_nextruntime opts
                     \<and> (task_nextruntime = [] \<or> task_detail_dict ''Enabled'' = Some ''False'')
                then [''WARNING - '' @ apostrophe @ task_name @ apostrophe
                        @ '' is not scheduled or no trigger. Task location: '' @ task_location @ ''.'']
                else if task_include
                  then [''OK - '' @ output_message task_name ''The task did run properly.''
                          task_location ''0x0'']
                else []))"
proof -
  have z: "py_int ''0'' = Inr 0" "result_code_hex_converter 0 = ''0x0''"
    by (simp_all add: string_defs result_code_hex_converter_def)
  have d: "check_task_result_string ''0x0'' = ''The task did run properly.''"
    by (simp add: check_task_result_string_def)
  show ?thesis
  proof (cases "task_detail_dict ''Enabled''")
    case None
    with assms z d show ?thesis
      by (simp add: internal_task_check_def getitem_def not_scheduled_message_def Let_def)
  next
    case (Some v)
    with assms z d show ?thesis
      by (simp add: internal_task_check_def getitem_def not_scheduled_message_def Let_def)
  qed
qed

theorem zero_result_classification_witness:
  "internal_task_check example_options (example_task ''Backup'' ''0'' '''') ''Backup'' True []
     = Inr [''WARNING - '' @ apostrophe @ ''Backup'' @ apostrophe
              @ '' is not scheduled or no trigger. Task location: '' @ [CHR 0x5C] @ ''.'']
   \<and> internal_task_check example_options (example_task ''Backup'' ''0'' ''2024-01-01'') ''Backup'' True []
     = Inr [''OK - '' @ output_message ''Backup'' ''The task did run properly.'' [CHR 0x5C] ''0x0'']
   \<and> internal_task_check example_options (example_task ''Backup'' ''0'' ''2024-01-01'') ''Backup'' False []
     = Inr []"
  using zero_result_classification [of "example_task ''Backup'' ''0'' ''''" "[CHR 0x5C]" "''''"
        example_options "''Backup''" True "[]"]
    zero_result_classification [of "example_task ''Backup'' ''0'' ''2024-01-01''" "[CHR 0x5C]" "''2024-01-01''"
        example_options "''Backup''" True "[]"]
    zero_result_classification [of "example_task ''Backup'' ''0'' ''2024-01-01''" "[CHR 0x5C]" "''2024-01-01''"
        example_options "''Backup''" False "[]"]
  by (simp add: example_task_def example_options_def)

section \<open>Ignored result codes\<close>

lemma hex_char_in: "n < 16 \<Longrightarrow> hex_char n \<in> set ''0123456789abcdef''"
  unfolding hex_char_def by (rule nth_mem) simp

lemma hex_digits_chars: "set (hex_digits n) \<subseteq> set ''0123456789abcdef''"
proof (induction n rule: hex_digits.induct)
  case (1 n)
  show ?case
  proof (cases "n < 16")
    case True
    then show ?thesis using hex_char_in [of n] by (simp add: hex_digits_small)
  next
    case False
    have "n mod 16 < 16" by simp
    then have "hex_char (n mod 16) \<in> set ''0123456789abcdef''" by (rule hex_char_in)
    with False 1 show ?thesis by (simp add: hex_digits_large)
  qed
qed

lemma hex_alphabet_no_upper: "c \<in> set ''-x0123456789abcdef'' \<Longrightarrow> \<not> is_upper c"
  by (auto simp: is_upper_def)

lemma hex_digits_alphabet: "set ''0123456789abcdef'' \<subseteq> set ''-x0123456789abcdef''"
  by (simp add: subset_insertI2)

lemma py_hex_alphabet: "c \<in> set (py_hex n) \<Longrightarrow> c \<in> set ''-x0123456789abcdef''"
proof (cases "n < 0")
  case True
  assume "c \<in> set (py_hex n)"
  with True have "c \<in> set ''-0x'' \<or> c \<in> set (hex_digits (nat (- n)))"
    by (simp add: py_hex_def)
  then show ?thesis
  proof
    assume "c \<in> set ''-0x''"
    then show ?thesis by auto
  next
    assume "c \<in> set (hex_digits (nat (- n)))"
    with hex_digits_chars hex_digits_alphabet show ?thesis by blast
  qed
next
  case False
  assume "c \<in> set (py_hex n)"
  with False have "c \<in> set ''0x'' \<or> c \<in> set (hex_digits (nat n))"
    by (simp add: py_hex_def)
  then show ?thesis
  proof
    assume "c \<in> set ''0x''"
    then show ?thesis by auto
  next
    assume "c \<in> set (hex_digits (nat n))"
    with hex_digits_chars hex_digits_alphabet show ?thesis by blast
  qed
qed

lemma py_hex_no_upper: "c \<in> set (py_hex n) \<Longrightarrow> \<not> is_upper c"
  using py_hex_alphabet hex_alphabet_no_upper by blast

lemma uppercase_code_differs:
  "\<exists>c \<in> set code. is_upper c \<Longrightarrow> result_code_hex_converter n \<noteq> code"
  using py_hex_no_upper by (auto simp: result_code_hex_converter_def)

lemma internal_task_check_cong:
  assumes "ignore_nextruntime opts' = ignore_nextruntime opts"
    and "\<And>n. (result_code_hex_converter n \<in> set (ignore_resultcode opts'))
           = (result_code_hex_converter n \<in> set (ignore_resultcode opts))"
  shows "internal_task_check opts' task_detail_dict task_name task_include result_list
         = internal_task_check opts task_detail_dict task_name task_include result_list"
  unfolding internal_task_check_def Let_def assms ..

text \<open>
  C6, as stated: the test against \<open>ignore_resultcode\<close> does not depend on the letter
  case of the supplied code. The code tests list membership of the text that \<open>hex\<close>
  returns: \<open>0x8007042b\<close> is ignored when supplied so, and reported when supplied as
  \<open>0x8007042B\<close>.
\<close>

theorem ignore_code_case_counterexample:
  "map ascii_lower ''0x8007042B'' = ''0x8007042b''
   \<and> internal_task_check (example_options\<lparr>ignore_resultcode := [''0x8007042b'']\<rparr>)
        (example_task ''Backup'' ''2147943467'' ''2024-01-01'') ''Backup'' False [] = Inr []
   \<and> internal_task_check (example_options\<lparr>ignore_resultcode := [''0x8007042B'']\<rparr>)
        (example_task ''Backup'' ''2147943467'' ''2024-01-01'') ''Backup'' False []
      = Inr [''WARNING - '' @ output_message ''Backup'' ''The process terminated unexpectedly.''
               [CHR 0x5C] ''0x8007042b'']"
  by (simp add: string_defs plugin_defs example_options_def example_task_def ascii_lower_def)

text \<open>
  C6, amended: the test is exact and case-sensitive, against the lowercase text of
  \<open>hex\<close>: a supplied code that contains an uppercase letter matches no record, so the
  entries are the same as without it.
\<close>

theorem uppercase_ignore_code_never_matches:
  assumes "\<exists>c \<in> set code. is_upper c"
  shows "internal_task_check (opts\<lparr>ignore_resultcode := removeAll code (ignore_resultcode opts)\<rparr>)
           task_detail_dict task_name task_include result_list
         = internal_task_check opts task_detail_dict task_name task_include result_list"
proof (rule internal_task_check_cong)
  show "ignore_nextruntime (opts\<lparr>ignore_resultcode := removeAll code (ignore_resultcode opts)\<rparr>)
          = ignore_nextruntime opts"
    by simp
next
  fix n
  from assms have "result_code_hex_converter n \<noteq> code" by (rule uppercase_code_differs)
  then show "(result_code_hex_converter n
        \<in> set (ignore_resultcode (opts\<lparr>ignore_resultcode := removeAll code (ignore_resultcode opts)\<rparr>)))
      = (result_code_hex_converter n \<in> set (ignore_resultcode opts))"
    by simp
qed

theorem uppercase_ignore_code_never_matches_witness:
  "internal_task_check (example_options\<lparr>ignore_resultcode := []\<rparr>)
        (example_task ''Backup'' ''2147943467'' ''2024-01-01'') ''Backup'' False []
   = internal_task_check (example_options\<lparr>ignore_resultcode := [''0x8007042B'']\<rparr>)
        (example_task ''Backup'' ''2147943467'' ''2024-01-01'') ''Backup'' False []"
proof -
  have u: "\<exists>c \<in> set ''0x8007042B''. is_upper c" by (simp add: is_upper_def)
  show ?thesis
    using uppercase_ignore_code_never_matches [OF u,
        of "example_options\<lparr>ignore_resultcode := [''0x8007042B'']\<rparr>"
           "example_task ''Backup'' ''2147943467'' ''2024-01-01''" "''Backup''" False "[]"]
    by simp
qed

section \<open>Printed lines and exit status\<close>

lemma check_exitcodes_eq:
  "check_exitcodes result_list =
     (filter (str_contains ''CRITICAL'') result_list @ filter (str_contains ''WARNING'') result_list
        @ filter (str_contains ''OK -'') result_list,
      if list_ex (str_contains ''CRITICAL'') result_list then 2
      else if list_ex (str_contains ''WARNING'') result_list then 1 else 0)"
proof -
  have "\<And>P. (if list_ex P result_list then filter P result_list else []) = filter P result_list"
    by (auto simp: list_ex_iff filter_empty_conv)
  then show ?thesis by (simp add: check_exitcodes_def)
qed

text \<open>
  C1, as stated: for every list of entries the CRITICAL entries are printed first, then
  the WARNING entries, then the OK entries, and the exit status is the highest severity
  present. \<open>check_exitcodes\<close> searches each entry for the texts \<open>CRITICAL\<close>,
  \<open>WARNING\<close> and \<open>OK -\<close> anywhere: the WARNING entry of a task named \<open>CRITICAL\<close> is
  printed twice and the exit status is 2.
\<close>

theorem severity_marker_in_name_counterexample:
  "check_task_details example_options (listing_by []) [example_task ''CRITICAL'' ''1'' ''2024-01-01''] []
       = Inr [''WARNING - '' @ output_message ''CRITICAL'' ''The task did not run properly.'' [CHR 0x5C] ''0x1'']
   \<and> check_exitcodes
        [''WARNING - '' @ output_message ''CRITICAL'' ''The task did not run properly.'' [CHR 0x5C] ''0x1'']
       = ([''WARNING - '' @ output_message ''CRITICAL'' ''The task did not run properly.'' [CHR 0x5C] ''0x1'',
           ''WARNING - '' @ output_message ''CRITICAL'' ''The task did not run properly.'' [CHR 0x5C] ''0x1''],
          2)
   \<and> by_severity
        [''WARNING - '' @ output_message ''CRITICAL'' ''The task did not run properly.'' [CHR 0x5C] ''0x1'']
       = [''WARNING - '' @ output_message ''CRITICAL'' ''The task did not run properly.'' [CHR 0x5C] ''0x1'']
   \<and> CheckState_value (highest_severity
        [''WARNING - '' @ output_message ''CRITICAL'' ''The task did not run properly.'' [CHR 0x5C] ''0x1''])
       = 1"
  by (simp add: string_defs plugin_defs example_options_def example_task_def
      by_severity_def highest_severity_def has_severity_def)

text \<open>
  C1, amended: for every list of entries each of which contains the texts \<open>CRITICAL\<close>,
  \<open>WARNING\<close> and \<open>OK -\<close> only as its own severity label, the printed lines are the
  CRITICAL entries, then the WARNING entries, then the OK entries, each group in the
  order of the list, and the exit status is the highest severity present, OK for the
  empty list.
\<close>

theorem severity_grouping:
  assumes "\<forall>entry \<in> set result_list. markers_are_labels entry"
  shows "check_exitcodes result_list
           = (by_severity result_list, CheckState_value (highest_severity result_list))"
proof -
  have c: "filter (str_contains ''CRITICAL'') result_list = filter (has_severity CRITICAL) result_list"
    using assms by (intro filter_cong) (auto simp: markers_are_labels_def)
  have w: "filter (str_contains ''WARNING'') result_list = filter (has_severity WARNING) result_list"
    using assms by (intro filter_cong) (auto simp: markers_are_labels_def)
  have k: "filter (str_contains ''OK -'') result_list = filter (has_severity OK) result_list"
    using assms by (intro filter_cong) (auto simp: markers_are_labels_def)
  have ec: "list_ex (str_contains ''CRITICAL'') result_list = list_ex (has_severity CRITICAL) result_list"
    using assms by (auto simp: list_ex_iff markers_are_labels_def)
  have ew: "list_ex (str_contains ''WARNING'') result_list = list_ex (has_severity WARNING) result_list"
    using assms by (auto simp: list_ex_iff markers_are_labels_def)
  show ?thesis
    unfolding check_exitcodes_eq c w k ec ew by_severity_def highest_severity_def by simp
qed

theorem severity_grouping_witness:
  "check_exitcodes
     [''OK - '' @ output_message ''Backup'' ''The task did run properly.'' [CHR 0x5C] ''0x0'',
      missing_message ''Nightly'']
   = ([missing_message ''Nightly'',
       ''OK - '' @ output_message ''Backup'' ''The task did run properly.'' [CHR 0x5C] ''0x0''], 1)
   \<and> check_exitcodes [] = ([], 0)"
proof -
  have m: "\<forall>entry \<in> set [''OK - '' @ output_message ''Backup'' ''The task did run properly.'' [CHR 0x5C] ''0x0'',
      missing_message ''Nightly'']. markers_are_labels entry"
    by (simp add: markers_are_labels_def has_severity_def output_message_def missing_message_def
        apostrophe_def)
  have e: "\<forall>entry \<in> set []. markers_are_labels entry" by simp
  show ?thesis
    using severity_grouping [OF m] severity_grouping [OF e]
    by (simp add: by_severity_def highest_severity_def has_severity_def output_message_def
        missing_message_def apostrophe_def)
qed

section \<open>The evaluation pass\<close>

lemma internal_task_check_append:
  "internal_task_check opts d task_name task_include result_list
     = (case internal_task_check opts d task_name task_include [] of
          Inl e \<Rightarrow> Inl e
        | Inr entries \<Rightarrow> Inr (result_list @ entries))"
  by (simp add: internal_task_check_def Let_def split: sum.split)

lemma internal_task_check_evaluable:
  "evaluable d \<Longrightarrow> \<exists>entries. internal_task_check opts d task_name task_include [] = Inr entries"
  by (auto simp: evaluable_def internal_task_check_def getitem_def py_int_def Let_def
      split: option.splits)

lemma internal_task_check_not_evaluable:
  "\<not> evaluable d \<Longrightarrow> isl (internal_task_check opts d task_name task_include result_list)"
  by (auto simp: evaluable_def internal_task_check_def getitem_def py_int_def Let_def
      split: option.splits)

lemma check_tasks_append:
  "check_tasks opts ds result_list
     = (case check_tasks opts ds [] of Inl e \<Rightarrow> Inl e | Inr entries \<Rightarrow> Inr (result_list @ entries))"
proof (induction ds arbitrary: result_list)
  case Nil
  show ?case by simp
next
  case (Cons d ds)
  note ih = Cons.IH
  show ?case
  proof (cases "d ''TaskName''")
    case None
    then show ?thesis by (simp add: getitem_def)
  next
    case (Some task_name)
    have step: "\<And>b. (case internal_task_check opts d task_name b result_list of
              Inl e \<Rightarrow> Inl e | Inr rl \<Rightarrow> check_tasks opts ds rl)
          = (case (case internal_task_check opts d task_name b [] of
              Inl e \<Rightarrow> Inl e | Inr rl \<Rightarrow> check_tasks opts ds rl) of
               Inl e \<Rightarrow> Inl e | Inr entries \<Rightarrow> Inr (result_list @ entries))"
    proof -
      fix b
      show "(case internal_task_check opts d task_name b result_list of
              Inl e \<Rightarrow> Inl e | Inr rl \<Rightarrow> check_tasks opts ds rl)
          = (case (case internal_task_check opts d task_name b [] of
              Inl e \<Rightarrow> Inl e | Inr rl \<Rightarrow> check_tasks opts ds rl) of
               Inl e \<Rightarrow> Inl e | Inr entries \<Rightarrow> Inr (result_list @ entries))"
      proof (cases "internal_task_check opts d task_name b []")
        case (Inl e)
        then show ?thesis
          by (subst internal_task_check_append) simp
      next
        case (Inr es)
        then have "internal_task_check opts d task_name b result_list = Inr (result_list @ es)"
          by (subst internal_task_check_append) simp
        with Inr show ?thesis
          using ih [of "result_list @ es"] ih [of es]
          by (simp split: sum.splits)
      qed
    qed
    from Some show ?thesis
      using ih [of result_list]
      by (simp add: getitem_def step)
  qed
qed

lemma check_tasks_Cons:
  "check_tasks opts (d # ds) result_list
     = (case getitem d ''TaskName'' of
          Inl e \<Rightarrow> Inl e
        | Inr task_name \<Rightarrow>
            if selected opts task_name
            then (case internal_task_check opts d task_name
                         (length (include_taskname_list opts) > 0) result_list of
                    Inl e \<Rightarrow> Inl e
                  | Inr result_list' \<Rightarrow> check_tasks opts ds result_list')
            else check_tasks opts ds result_list)"
  by (simp add: selected_def split: sum.split)

lemma check_tasks_complete:
  "list_all (complete_block opts) ds \<Longrightarrow>
     check_tasks opts ds [] = Inr (concat (map (task_entries opts) ds))"
proof (induction ds)
  case Nil
  show ?case by simp
next
  case (Cons d ds)
  then have rest: "check_tasks opts ds [] = Inr (concat (map (task_entries opts) ds))"
    and cb: "complete_block opts d" by simp_all
  from cb obtain task_name where tn: "d ''TaskName'' = Some task_name"
    by (auto simp: complete_block_def split: option.splits)
  show ?case
  proof (cases "selected opts task_name")
    case False
    with tn have "task_entries opts d = []" by (simp add: task_entries_def)
    with False tn rest show ?thesis
      by (subst check_tasks_Cons) (simp add: getitem_def)
  next
    case True
    with cb tn have "evaluable d" by (simp add: complete_block_def)
    then obtain es where
      es: "internal_task_check opts d task_name (length (include_taskname_list opts) > 0) [] = Inr es"
      using internal_task_check_evaluable by blast
    have cont: "check_tasks opts ds es = Inr (es @ concat (map (task_entries opts) ds))"
      by (subst check_tasks_append) (simp add: rest)
    from True tn es have te: "task_entries opts d = es"
      by (simp add: task_entries_def)
    from True tn es cont te show ?thesis
      by (subst check_tasks_Cons) (simp add: getitem_def)
  qed
qed

lemma check_tasks_incomplete:
  "\<not> list_all (complete_block opts) ds \<Longrightarrow> isl (check_tasks opts ds result_list)"
proof (induction ds arbitrary: result_list)
  case Nil
  then show ?case by simp
next
  case (Cons d ds)
  show ?case
  proof (cases "d ''TaskName''")
    case None
    then show ?thesis by (simp add: getitem_def)
  next
    case (Some task_name)
    show ?thesis
    proof (cases "complete_block opts d")
      case True
      with Cons.prems have "\<not> list_all (complete_block opts) ds" by simp
      then have "\<And>rl. isl (check_tasks opts ds rl)" by (rule Cons.IH)
      with Some show ?thesis
        by (simp add: getitem_def split: sum.split)
    next
      case False
      with Some have sel: "selected opts task_name" and ne: "\<not> evaluable d"
        by (simp_all add: complete_block_def)
      from ne have "isl (internal_task_check opts d task_name
          (length (include_taskname_list opts) > 0) result_list)"
        by (rule internal_task_check_not_evaluable)
      then obtain e where "internal_task_check opts d task_name
          (length (include_taskname_list opts) > 0) result_list = Inl e"
        by (auto simp: isl_def)
      with Some sel show ?thesis
        by (subst check_tasks_Cons) (simp add: getitem_def)
    qed
  qed
qed

lemma collect_tasknames_names:
  "collect_tasknames ds = Inr names \<Longrightarrow> set names = {n. \<exists>d \<in> set ds. d ''TaskName'' = Some n}"
proof (induction ds arbitrary: names)
  case Nil
  then show ?case by simp
next
  case (Cons d ds)
  then show ?case
    by (auto simp: getitem_def split: option.splits sum.splits)
qed

lemma collect_tasknames_complete:
  "list_all (complete_block opts) ds \<Longrightarrow> \<exists>names. collect_tasknames ds = Inr names"
proof (induction ds)
  case Nil
  show ?case by simp
next
  case (Cons d ds)
  then show ?case
    by (auto simp: getitem_def complete_block_def split: option.splits)
qed

lemma check_task_details_eq:
  "check_task_details opts list_of_set ds result_list
     = (case collect_tasknames ds of
          Inl e \<Rightarrow> Inl e
        | Inr names \<Rightarrow>
            (case check_tasks opts ds [] of
               Inl e \<Rightarrow> Inl e
             | Inr entries \<Rightarrow>
                 Inr (result_list @ map missing_message (list_of_set (missing_names opts ds)) @ entries)))"
proof (cases "collect_tasknames ds")
  case (Inl e)
  then show ?thesis by (simp add: check_task_details_def)
next
  case (Inr names)
  then have m: "missing_names opts ds = set (include_taskname_list opts) - set names"
    by (simp add: missing_names_def)
  from Inr have "check_task_details opts list_of_set ds result_list
      = check_tasks opts ds (result_list @ map missing_message (list_of_set (missing_names opts ds)))"
    by (simp add: check_task_details_def m)
  also have "\<dots> = (case check_tasks opts ds [] of
               Inl e \<Rightarrow> Inl e
             | Inr entries \<Rightarrow>
                 Inr ((result_list @ map missing_message (list_of_set (missing_names opts ds))) @ entries))"
    by (rule check_tasks_append)
  finally show ?thesis using Inr by (simp split: sum.split)
qed

lemma check_task_details_complete:
  assumes "list_all (complete_block opts) ds"
  shows "check_task_details opts list_of_set ds result_list
           = Inr (result_list @ map missing_message (list_of_set (missing_names opts ds))
                    @ concat (map (task_entries opts) ds))"
proof -
  from assms obtain names where "collect_tasknames ds = Inr names"
    using collect_tasknames_complete by blast
  moreover from assms have "check_tasks opts ds [] = Inr (concat (map (task_entries opts) ds))"
    by (rule check_tasks_complete)
  ultimately show ?thesis
    by (simp add: check_task_details_eq)
qed

lemma check_task_details_incomplete:
  assumes "\<not> list_all (complete_block opts) ds"
  shows "isl (check_task_details opts list_of_set ds result_list)"
proof -
  from assms have "isl (check_tasks opts ds [])" by (rule check_tasks_incomplete)
  then show ?thesis
    by (auto simp: check_task_details_eq isl_def split: sum.split)
qed

text \<open>
  C2, as stated: a block that lacks a required field, or whose \<open>LastTaskResult\<close> is no
  integer, is dropped, and the other blocks still produce their entries. The complete
  block alone gives its WARNING entry; followed by a block truncated to five lines, or
  by a block whose result is no integer, the run ends in the exception and nothing is
  reported.
\<close>

theorem truncated_block_aborts_counterexample:
  "main example_options (listing_by []) (example_block ''Backup'' ''1'' ''2024-01-01'')
     = Inr ([''WARNING - '' @ output_message ''Backup'' ''The task did not run properly.'' [CHR 0x5C] ''0x1''], 1)
   \<and> main example_options (listing_by [])
       (example_block ''Backup'' ''1'' ''2024-01-01'' @ example_truncated_block ''Cleanup'' ''0'' ''2024-01-01'')
     = Inl (KeyError ''TaskPath'')
   \<and> main example_options (listing_by [])
       (example_block ''Backup'' ''1'' ''2024-01-01'' @ example_block ''Cleanup'' ''n/a'' ''2024-01-01'')
     = Inl (ValueError ''n/a'')"
  by (simp add: string_defs plugin_defs example_options_def example_block_def
      example_truncated_block_def newline_def)

text \<open>
  C2, amended: there is no local recovery. \<open>check_task_details\<close> returns entries exactly
  when every block has a \<open>TaskName\<close> and every block that the mode selects has
  \<open>TaskPath\<close>, \<open>NextRunTime\<close> and a \<open>LastTaskResult\<close> that \<open>int\<close> accepts; then the
  result is the missing-name warnings followed by the entries of each block, in order.
  Otherwise it raises, and no block is reported.
\<close>

theorem evaluation_completes_iff_blocks_complete:
  "(list_all (complete_block opts) task_dict_list \<longrightarrow>
      check_task_details opts list_of_set task_dict_list result_list
        = Inr (result_list
               @ map missing_message (list_of_set (missing_names opts task_dict_list))
               @ concat (map (task_entries opts) task_dict_list)))
   \<and> (\<not> list_all (complete_block opts) task_dict_list \<longrightarrow>
        isl (check_task_details opts list_of_set task_dict_list result_list))"
  using check_task_details_complete check_task_details_incomplete by blast

theorem evaluation_completes_iff_blocks_complete_witness:
  "check_task_details example_options (listing_by []) [example_task ''Backup'' ''1'' ''2024-01-01''] []
     = Inr [''WARNING - '' @ output_message ''Backup'' ''The task did not run properly.'' [CHR 0x5C] ''0x1'']
   \<and> isl (check_task_details example_options (listing_by [])
        [example_task ''Backup'' ''1'' ''2024-01-01'', example_task ''Cleanup'' ''n/a'' ''2024-01-01''] [])"
proof -
  have a: "complete_block example_options (example_task ''Backup'' ''1'' ''2024-01-01'')"
    by (simp add: complete_block_def selected_def evaluable_def string_defs plugin_defs
        example_options_def example_task_def)
  have b: "\<not> complete_block example_options (example_task ''Cleanup'' ''n/a'' ''2024-01-01'')"
    by (simp add: complete_block_def selected_def evaluable_def string_defs plugin_defs
        example_options_def example_task_def)
  have m: "missing_names example_options [example_task ''Backup'' ''1'' ''2024-01-01''] = {}"
    by (simp add: missing_names_def getitem_def include_taskname_list_def example_options_def
        example_task_def)
  have t: "task_entries example_options (example_task ''Backup'' ''1'' ''2024-01-01'')
      = [''WARNING - '' @ output_message ''Backup'' ''The task did not run properly.'' [CHR 0x5C] ''0x1'']"
    by (simp add: task_entries_def selected_def string_defs plugin_defs
        example_options_def example_task_def)
  show ?thesis
    using evaluation_completes_iff_blocks_complete
      [of example_options "[example_task ''Backup'' ''1'' ''2024-01-01'']" "listing_by []" "[]"]
      evaluation_completes_iff_blocks_complete
      [of example_options
        "[example_task ''Backup'' ''1'' ''2024-01-01'', example_task ''Cleanup'' ''n/a'' ''2024-01-01'']"
        "listing_by []" "[]"]
    by (simp add: a b m t listing_by_def)
qed

section \<open>Missing include names\<close>

lemma py_hex_last: "py_hex n \<noteq> [] \<and> last (py_hex n) \<noteq> CHR ''!''"
proof -
  have ne: "py_hex n \<noteq> []" by (simp add: py_hex_def)
  then have "last (py_hex n) \<in> set (py_hex n)" by (rule last_in_set)
  then have "last (py_hex n) \<in> set ''-x0123456789abcdef''" by (rule py_hex_alphabet)
  then have "last (py_hex n) \<noteq> CHR ''!''" by auto
  with ne show ?thesis by simp
qed

lemma output_message_nonempty: "output_message task_name d l h \<noteq> []"
  by (simp add: output_message_def apostrophe_def)

lemma output_message_hex_last: "last (output_message task_name d l (py_hex k)) \<noteq> CHR ''!''"
  using py_hex_last [of k] by (simp add: output_message_def)

lemma missing_message_last: "last (missing_message n) = CHR ''!''"
  by (simp add: missing_message_def)

lemma not_scheduled_message_last: "last (not_scheduled_message n l) \<noteq> CHR ''!''"
  by (simp add: not_scheduled_message_def)

lemma internal_task_check_last:
  assumes "internal_task_check opts d task_name task_include [] = Inr entries"
    and "e \<in> set entries"
  shows "last e \<noteq> CHR ''!''"
  using assms
  by (auto simp: internal_task_check_def Let_def result_code_hex_converter_def
      output_message_nonempty output_message_hex_last not_scheduled_message_last
      split: sum.splits if_splits)

lemma internal_task_check_not_missing:
  assumes "internal_task_check opts d task_name task_include [] = Inr entries"
  shows "missing_message n \<notin> set entries"
  using internal_task_check_last [OF assms, of "missing_message n"] missing_message_last [of n]
  by blast

lemma task_entries_not_missing: "missing_message n \<notin> set (task_entries opts d)"
proof (cases "d ''TaskName''")
  case None
  then have "task_entries opts d = []" by (simp add: task_entries_def)
  then show ?thesis by simp
next
  case (Some task_name)
  show ?thesis
  proof (cases "internal_task_check opts d task_name (length (include_taskname_list opts) > 0) []")
    case (Inl e)
    with Some have "task_entries opts d = []" by (simp add: task_entries_def)
    then show ?thesis by simp
  next
    case (Inr entries)
    then have m: "missing_message n \<notin> set entries" by (rule internal_task_check_not_missing)
    from Some Inr have "task_entries opts d = entries \<or> task_entries opts d = []"
      by (simp add: task_entries_def)
    with m show ?thesis by auto
  qed
qed

lemma missing_message_inj: "inj missing_message"
  by (rule injI) (simp add: missing_message_def)

lemma count_list_distinct: "distinct xs \<Longrightarrow> x \<in> set xs \<Longrightarrow> count_list xs x = 1"
  by (induction xs) auto

lemma missing_message_text:
  "missing_message name
     = ''WARNING - '' @ [CHR 0x27] @ name @ [CHR 0x27] @ '' task can not be found. Please check task name!''"
  by (simp add: missing_message_def apostrophe_def)

lemma task_entries_include:
  assumes "length (include_taskname_list opts) > 0"
    and "complete_block opts d"
    and "d ''TaskName'' = Some task_name"
    and "task_name \<in> set (include_taskname_list opts)"
  shows "internal_task_check opts d task_name True [] = Inr (task_entries opts d)"
proof -
  from assms(1,4) have sel: "selected opts task_name" by (simp add: selected_def)
  with assms(2,3) have "evaluable d" by (simp add: complete_block_def)
  then obtain es where es: "internal_task_check opts d task_name True [] = Inr es"
    using internal_task_check_evaluable by blast
  with assms(1,3) sel have "task_entries opts d = es" by (simp add: task_entries_def)
  with es show ?thesis by simp
qed

text \<open>
  C8, as stated: in include mode every include name that is the \<open>TaskName\<close> of no
  record gets its WARNING entry, and the records named are evaluated. Here
  \<open>Nightly\<close> is missing and the block of \<open>Backup\<close> is truncated before its
  \<open>TaskPath\<close>: the run ends in the \<open>KeyError\<close> and reports no entry at all.
\<close>

theorem missing_name_unreported_counterexample:
  "fetched_missing_names (example_options\<lparr>include_taskname := [''Backup'', ''Nightly'']\<rparr>)
       (example_truncated_block ''Backup'' ''0'' ''2024-01-01'') = {''Nightly''}
   \<and> main (example_options\<lparr>include_taskname := [''Backup'', ''Nightly'']\<rparr>) (listing_by [''Nightly''])
       (example_truncated_block ''Backup'' ''0'' ''2024-01-01'') = Inl (KeyError ''TaskPath'')"
proof -
  let ?opts = "example_options\<lparr>include_taskname := [''Backup'', ''Nightly'']\<rparr>"
  let ?text = "example_truncated_block ''Backup'' ''0'' ''2024-01-01''"
  have g: "get_windows_task ?text
      = Inr [[''LastRunTime'' \<mapsto> ''2022.12.10. 3:00:00'', ''LastTaskResult'' \<mapsto> ''0'',
              ''NextRunTime'' \<mapsto> ''2024-01-01'', ''NumberOfMissedRuns'' \<mapsto> ''0'',
              ''TaskName'' \<mapsto> ''Backup'']]"
    by (simp add: string_defs plugin_defs example_truncated_block_def newline_def)
  have m: "fetched_missing_names ?opts ?text = {''Nightly''}"
    unfolding fetched_missing_names_def g
    by (auto simp: missing_names_def getitem_def include_taskname_list_def example_options_def
        strip_def py_isspace_def)
  have r: "main ?opts (listing_by [''Nightly'']) ?text = Inl (KeyError ''TaskPath'')"
    by (simp add: string_defs plugin_defs example_options_def example_truncated_block_def newline_def)
  from m r show ?thesis by blast
qed

text \<open>
  C8, amended: in include mode, on records that have the fields the evaluation reads,
  the result is the entries
  \<open>WARNING - '<name>' task can not be found. Please check task name!\<close> of the missing
  names, placed before the entries of the records, followed by what each record
  contributes; every include name that is the \<open>TaskName\<close> of no record has its entry
  exactly once; and what a record named by an include name contributes is what
  \<open>internal_task_check\<close> appends for it with \<open>task_include\<close> true.
\<close>

theorem missing_include_names_reported:
  assumes "length (include_taskname_list opts) > 0"
    and "list_all (complete_block opts) task_dict_list"
    and "set_listing list_of_set (missing_names opts task_dict_list)"
  shows "check_task_details opts list_of_set task_dict_list []
           = Inr (map (\<lambda>name. ''WARNING - '' @ [CHR 0x27] @ name @ [CHR 0x27]
                              @ '' task can not be found. Please check task name!'')
                    (list_of_set (missing_names opts task_dict_list))
                  @ concat (map (task_entries opts) task_dict_list))
       \<and> (\<forall>name \<in> set (include_taskname_list opts).
            (\<forall>d \<in> set task_dict_list. d ''TaskName'' \<noteq> Some name) \<longrightarrow>
              count_list
                (map (\<lambda>name. ''WARNING - '' @ [CHR 0x27] @ name @ [CHR 0x27]
                              @ '' task can not be found. Please check task name!'')
                    (list_of_set (missing_names opts task_dict_list))
                 @ concat (map (task_entries opts) task_dict_list))
                (''WARNING - '' @ [CHR 0x27] @ name @ [CHR 0x27]
                   @ '' task can not be found. Please check task name!'') = 1)
       \<and> (\<forall>d \<in> set task_dict_list. \<forall>task_name \<in> set (include_taskname_list opts).
            d ''TaskName'' = Some task_name \<longrightarrow>
              internal_task_check opts d task_name True [] = Inr (task_entries opts d))"
proof -
  let ?missing = "list_of_set (missing_names opts task_dict_list)"
  let ?records = "concat (map (task_entries opts) task_dict_list)"
  have msg: "(\<lambda>name. ''WARNING - '' @ [CHR 0x27] @ name @ [CHR 0x27]
                 @ '' task can not be found. Please check task name!'') = missing_message"
    by (rule ext) (simp add: missing_message_text)
  from assms(2) have "check_task_details opts list_of_set task_dict_list []
      = Inr ([] @ map missing_message ?missing @ ?records)"
    by (rule check_task_details_complete)
  then have res: "check_task_details opts list_of_set task_dict_list []
      = Inr (map missing_message ?missing @ ?records)" by simp
  from assms(2) obtain names where names: "collect_tasknames task_dict_list = Inr names"
    using collect_tasknames_complete by blast
  then have mn: "missing_names opts task_dict_list = set (include_taskname_list opts) - set names"
    by (simp add: missing_names_def)
  have cnt: "count_list (map missing_message ?missing @ ?records) (missing_message name) = 1"
    if inc: "name \<in> set (include_taskname_list opts)"
      and absent: "\<forall>d \<in> set task_dict_list. d ''TaskName'' \<noteq> Some name" for name
  proof -
    from absent have "name \<notin> set names"
      by (simp add: collect_tasknames_names [OF names])
    with inc mn have "name \<in> missing_names opts task_dict_list" by simp
    with assms(3) have d: "distinct ?missing" and m: "name \<in> set ?missing"
      by (simp_all add: set_listing_def)
    then have "count_list ?missing name = 1" by (rule count_list_distinct)
    then have one: "count_list (map missing_message ?missing) (missing_message name) = 1"
      by (simp add: count_list_map_conv [OF missing_message_inj])
    have "missing_message name \<notin> set ?records"
      using task_entries_not_missing by auto
    then have "count_list ?records (missing_message name) = 0" by simp
    with one show ?thesis by simp
  qed
  have ev: "internal_task_check opts d task_name True [] = Inr (task_entries opts d)"
    if "d \<in> set task_dict_list" and "task_name \<in> set (include_taskname_list opts)"
      and "d ''TaskName'' = Some task_name" for d task_name
  proof -
    from assms(2) that(1) have "complete_block opts d" by (simp add: list_all_iff)
    with assms(1) show ?thesis using that(3) that(2) by (rule task_entries_include)
  qed
  from res cnt ev show ?thesis
    unfolding msg missing_message_text [symmetric] by blast
qed

theorem missing_include_names_reported_witness:
  "check_task_details (example_options\<lparr>include_taskname := [''Backup'', ''Nightly'']\<rparr>)
       (listing_by [''Nightly'']) [example_task ''Backup'' ''0'' ''2024-01-01''] []
     = Inr [''WARNING - '' @ [CHR 0x27] @ ''Nightly'' @ [CHR 0x27]
              @ '' task can not be found. Please check task name!'',
            ''OK - '' @ output_message ''Backup'' ''The task did run properly.'' [CHR 0x5C] ''0x0'']
   \<and> count_list
        [''WARNING - '' @ [CHR 0x27] @ ''Nightly'' @ [CHR 0x27]
           @ '' task can not be found. Please check task name!'',
         ''OK - '' @ output_message ''Backup'' ''The task did run properly.'' [CHR 0x5C] ''0x0'']
        (''WARNING - '' @ [CHR 0x27] @ ''Nightly'' @ [CHR 0x27]
           @ '' task can not be found. Please check task name!'') = 1
   \<and> internal_task_check (example_options\<lparr>include_taskname := [''Backup'', ''Nightly'']\<rparr>)
        (example_task ''Backup'' ''0'' ''2024-01-01'') ''Backup'' True []
      = Inr [''OK - '' @ output_message ''Backup'' ''The task did run properly.'' [CHR 0x5C] ''0x0'']"
proof -
  let ?opts = "example_options\<lparr>include_taskname := [''Backup'', ''Nightly'']\<rparr>"
  let ?d = "example_task ''Backup'' ''0'' ''2024-01-01''"
  have inc: "include_taskname_list ?opts = [''Backup'', ''Nightly'']"
    by (simp add: include_taskname_list_def example_options_def strip_def py_isspace_def)
  have a: "length (include_taskname_list ?opts) > 0" by (simp add: inc)
  have cb: "complete_block ?opts ?d"
    by (simp add: complete_block_def selected_def evaluable_def inc example_task_def string_defs)
  then have b: "list_all (complete_block ?opts) [?d]" by simp
  have m: "missing_names ?opts [?d] = {''Nightly''}"
    by (auto simp: missing_names_def getitem_def inc example_task_def)
  have c: "set_listing (listing_by [''Nightly'']) (missing_names ?opts [?d])"
    by (simp add: m set_listing_def listing_by_def)
  have l: "listing_by [''Nightly''] {''Nightly''} = [''Nightly'']"
    by (simp add: listing_by_def)
  have t: "task_entries ?opts ?d
      = [''OK - '' @ output_message ''Backup'' ''The task did run properly.'' [CHR 0x5C] ''0x0'']"
    by (simp add: task_entries_def selected_def example_task_def string_defs plugin_defs
        example_options_def)
  have n: "\<forall>d \<in> set [?d]. d ''TaskName'' \<noteq> Some ''Nightly''"
    by (simp add: example_task_def)
  have k: "?d ''TaskName'' = Some ''Backup''"
    by (simp add: example_task_def)
  from missing_include_names_reported [OF a b c] n k
  show ?thesis by (simp add: m l t inc)
qed

section \<open>Determinism\<close>

lemma main_eq:
  "main opts list_of_set perfdata
     = (case get_windows_task perfdata of
          Inl e \<Rightarrow> Inl e
        | Inr ds \<Rightarrow>
            (case collect_tasknames ds of
               Inl e \<Rightarrow> Inl e
             | Inr names \<Rightarrow>
                 (case check_tasks opts ds [] of
                    Inl e \<Rightarrow> Inl e
                  | Inr entries \<Rightarrow>
                      Inr (check_exitcodes
                             (map missing_message (list_of_set (missing_names opts ds)) @ entries)))))"
  by (simp add: main_def check_task_details_eq split: sum.split)

lemma check_exitcodes_mset:
  assumes "mset xs = mset ys"
  shows "same_lines_and_status (check_exitcodes xs) (check_exitcodes ys)"
proof -
  from assms have s: "set xs = set ys" by (rule mset_eq_setD)
  have e: "\<And>P. list_ex P xs = list_ex P ys"
    by (simp add: list_ex_iff s)
  show ?thesis
    by (simp add: same_lines_and_status_def check_exitcodes_eq e assms)
qed

lemma set_listing_mset:
  assumes "set_listing l1 S" and "set_listing l2 S"
  shows "mset (l1 S) = mset (l2 S)"
proof -
  from assms have "distinct (l1 S)" "distinct (l2 S)" "set (l1 S) = set (l2 S)"
    by (simp_all add: set_listing_def)
  then show ?thesis by (simp add: set_eq_iff_mset_eq_distinct)
qed

lemma short_distinct_lists_equal:
  assumes "set xs = set ys" and "length xs \<le> 1" and "length ys \<le> 1"
  shows "xs = ys"
proof (cases xs)
  case Nil
  with assms(1) show ?thesis by simp
next
  case (Cons x xs')
  with assms(2) have xs: "xs = [x]" by simp
  with assms(1) have "ys \<noteq> []" by auto
  then obtain y ys' where "ys = y # ys'" by (cases ys) auto
  with assms(3) have ys: "ys = [y]" by simp
  from assms(1) xs ys show ?thesis by simp
qed

lemma set_listing_unique:
  assumes "set_listing l1 S" and "set_listing l2 S" and "card S \<le> 1"
  shows "l1 S = l2 S"
proof -
  from assms(1) have d1: "distinct (l1 S)" and s1: "set (l1 S) = S"
    by (simp_all add: set_listing_def)
  from assms(2) have d2: "distinct (l2 S)" and s2: "set (l2 S) = S"
    by (simp_all add: set_listing_def)
  from d1 s1 have "length (l1 S) = card S" by (metis distinct_card)
  moreover from d2 s2 have "length (l2 S) = card S" by (metis distinct_card)
  ultimately show ?thesis
    using assms(3) s1 s2 by (intro short_distinct_lists_equal) simp_all
qed

text \<open>
  C9, as stated: two runs on the same text with the same options print the same lines in
  the same order. The order of \<open>different_list\<close> is that of a Python set of strings;
  with two include names missing, both listings of the set are possible, and the two
  runs print the two warnings in different orders.
\<close>

theorem missing_name_order_counterexample:
  "fetched_missing_names (example_options\<lparr>include_taskname := [''Backup'', ''Nightly'', ''Weekly'']\<rparr>)
       (example_block ''Backup'' ''0'' ''2024-01-01'') = {''Nightly'', ''Weekly''}
   \<and> set_listing (listing_by [''Nightly'', ''Weekly'']) {''Nightly'', ''Weekly''}
   \<and> set_listing (listing_by [''Weekly'', ''Nightly'']) {''Nightly'', ''Weekly''}
   \<and> main (example_options\<lparr>include_taskname := [''Backup'', ''Nightly'', ''Weekly'']\<rparr>)
        (listing_by [''Nightly'', ''Weekly'']) (example_block ''Backup'' ''0'' ''2024-01-01'')
      = Inr ([missing_message ''Nightly'', missing_message ''Weekly'',
              ''OK - '' @ output_message ''Backup'' ''The task did run properly.'' [CHR 0x5C] ''0x0''], 1)
   \<and> main (example_options\<lparr>include_taskname := [''Backup'', ''Nightly'', ''Weekly'']\<rparr>)
        (listing_by [''Weekly'', ''Nightly'']) (example_block ''Backup'' ''0'' ''2024-01-01'')
      = Inr ([missing_message ''Weekly'', missing_message ''Nightly'',
              ''OK - '' @ output_message ''Backup'' ''The task did run properly.'' [CHR 0x5C] ''0x0''], 1)
   \<and> main (example_options\<lparr>include_taskname := [''Backup'', ''Nightly'', ''Weekly'']\<rparr>)
        (listing_by [''Nightly'', ''Weekly'']) (example_block ''Backup'' ''0'' ''2024-01-01'')
      \<noteq> main (example_options\<lparr>include_taskname := [''Backup'', ''Nightly'', ''Weekly'']\<rparr>)
        (listing_by [''Weekly'', ''Nightly'']) (example_block ''Backup'' ''0'' ''2024-01-01'')"
proof -
  let ?opts = "example_options\<lparr>include_taskname := [''Backup'', ''Nightly'', ''Weekly'']\<rparr>"
  let ?text = "example_block ''Backup'' ''0'' ''2024-01-01''"
  have m: "fetched_missing_names ?opts ?text = {''Nightly'', ''Weekly''}"
    unfolding fetched_missing_names_def get_windows_task_example
    by (auto simp: missing_names_def getitem_def include_taskname_list_def example_options_def
        example_task_def strip_def py_isspace_def)
  have l1: "set_listing (listing_by [''Nightly'', ''Weekly'']) {''Nightly'', ''Weekly''}"
    by (auto simp: set_listing_def listing_by_def)
  have l2: "set_listing (listing_by [''Weekly'', ''Nightly'']) {''Nightly'', ''Weekly''}"
    by (auto simp: set_listing_def listing_by_def)
  have r1: "main ?opts (listing_by [''Nightly'', ''Weekly'']) ?text
      = Inr ([missing_message ''Nightly'', missing_message ''Weekly'',
              ''OK - '' @ output_message ''Backup'' ''The task did run properly.'' [CHR 0x5C] ''0x0''], 1)"
    by (simp add: string_defs plugin_defs example_options_def example_block_def newline_def)
  have r2: "main ?opts (listing_by [''Weekly'', ''Nightly'']) ?text
      = Inr ([missing_message ''Weekly'', missing_message ''Nightly'',
              ''OK - '' @ output_message ''Backup'' ''The task did run properly.'' [CHR 0x5C] ''0x0''], 1)"
    by (simp add: string_defs plugin_defs example_options_def example_block_def newline_def)
  have ne: "main ?opts (listing_by [''Nightly'', ''Weekly'']) ?text
      \<noteq> main ?opts (listing_by [''Weekly'', ''Nightly'']) ?text"
    unfolding r1 r2 by (simp add: missing_message_def)
  from m l1 l2 r1 r2 ne show ?thesis by blast
qed

text \<open>
  C9, amended: for the same text and options, two runs whatever their listings of the set
  of missing include names end alike (the same exception, or the same exit status and
  the same printed lines up to their order), and print identical lines in identical order
  when at most one include name is missing.
\<close>

theorem output_up_to_missing_name_order:
  assumes "set_listing l1 (fetched_missing_names opts perfdata)"
    and "set_listing l2 (fetched_missing_names opts perfdata)"
  shows "rel_sum (=) same_lines_and_status (main opts l1 perfdata) (main opts l2 perfdata)
       \<and> (card (fetched_missing_names opts perfdata) \<le> 1 \<longrightarrow>
            main opts l1 perfdata = main opts l2 perfdata)"
proof (cases "get_windows_task perfdata")
  case (Inl e)
  then show ?thesis by (simp add: main_eq)
next
  case (Inr ds)
  then have S: "fetched_missing_names opts perfdata = missing_names opts ds"
    by (simp add: fetched_missing_names_def)
  show ?thesis
  proof (cases "collect_tasknames ds")
    case (Inl e)
    with Inr show ?thesis by (simp add: main_eq)
  next
    case names: (Inr names)
    show ?thesis
    proof (cases "check_tasks opts ds []")
      case (Inl e)
      with Inr names show ?thesis by (simp add: main_eq)
    next
      case entries: (Inr entries)
      let ?out = "\<lambda>l. check_exitcodes (map missing_message (l (missing_names opts ds)) @ entries)"
      from Inr names entries have m: "\<And>l. main opts l perfdata = Inr (?out l)"
        by (simp add: main_eq)
      from assms have "mset (l1 (missing_names opts ds)) = mset (l2 (missing_names opts ds))"
        unfolding S by (rule set_listing_mset)
      then have "mset (map missing_message (l1 (missing_names opts ds)) @ entries)
          = mset (map missing_message (l2 (missing_names opts ds)) @ entries)"
        by simp
      then have a: "same_lines_and_status (?out l1) (?out l2)"
        by (rule check_exitcodes_mset)
      have b: "l1 (missing_names opts ds) = l2 (missing_names opts ds)"
        if "card (missing_names opts ds) \<le> 1"
        using assms that unfolding S by (rule set_listing_unique)
      from a b show ?thesis by (auto simp: m S)
    qed
  qed
qed

theorem output_up_to_missing_name_order_witness:
  "rel_sum (=) same_lines_and_status
     (main (example_options\<lparr>include_taskname := [''Backup'', ''Nightly'', ''Weekly'']\<rparr>)
        (listing_by [''Nightly'', ''Weekly'']) (example_block ''Backup'' ''0'' ''2024-01-01''))
     (main (example_options\<lparr>include_taskname := [''Backup'', ''Nightly'', ''Weekly'']\<rparr>)
        (listing_by [''Weekly'', ''Nightly'']) (example_block ''Backup'' ''0'' ''2024-01-01''))
   \<and> main (example_options\<lparr>include_taskname := [''Backup'', ''Nightly'']\<rparr>)
        (listing_by [''Nightly'', ''Weekly'']) (example_block ''Backup'' ''0'' ''2024-01-01'')
     = main (example_options\<lparr>include_taskname := [''Backup'', ''Nightly'']\<rparr>)
        (listing_by [''Weekly'', ''Nightly'']) (example_block ''Backup'' ''0'' ''2024-01-01'')"
proof -
  let ?opts = "example_options\<lparr>include_taskname := [''Backup'', ''Nightly'', ''Weekly'']\<rparr>"
  let ?opts1 = "example_options\<lparr>include_taskname := [''Backup'', ''Nightly'']\<rparr>"
  let ?text = "example_block ''Backup'' ''0'' ''2024-01-01''"
  have m: "fetched_missing_names ?opts ?text = {''Nightly'', ''Weekly''}"
    unfolding fetched_missing_names_def get_windows_task_example
    by (auto simp: missing_names_def getitem_def include_taskname_list_def example_options_def
        example_task_def strip_def py_isspace_def)
  have l1: "set_listing (listing_by [''Nightly'', ''Weekly'']) (fetched_missing_names ?opts ?text)"
    unfolding m by (auto simp: set_listing_def listing_by_def)
  have l2: "set_listing (listing_by [''Weekly'', ''Nightly'']) (fetched_missing_names ?opts ?text)"
    unfolding m by (auto simp: set_listing_def listing_by_def)
  have m': "fetched_missing_names ?opts1 ?text = {''Nightly''}"
    unfolding fetched_missing_names_def get_windows_task_example
    by (auto simp: missing_names_def getitem_def include_taskname_list_def example_options_def
        example_task_def strip_def py_isspace_def)
  have l1': "set_listing (listing_by [''Nightly'', ''Weekly'']) (fetched_missing_names ?opts1 ?text)"
    unfolding m' by (auto simp: set_listing_def listing_by_def)
  have l2': "set_listing (listing_by [''Weekly'', ''Nightly'']) (fetched_missing_names ?opts1 ?text)"
    unfolding m' by (auto simp: set_listing_def listing_by_def)
  have c: "card (fetched_missing_names ?opts1 ?text) \<le> 1"
    unfolding m' by simp
  from output_up_to_missing_name_order [OF l1 l2] output_up_to_missing_name_order [OF l1' l2'] c
  show ?thesis by blast
qed

end
